theory Spec2Isabelle
  imports Main
begin

section \<open>Python values and exceptions\<close>

text \<open>
  The values that \<^verbatim>\<open>json.loads\<close> produces and that the handlers of
  \<^verbatim>\<open>http_server.py\<close> pass around. A \<^verbatim>\<open>dict\<close> keeps its insertion order and
  is an association list; the keys of a parsed object are distinct. Non-integer numbers
  take no part in any handler and are left out. A \<open>char\<close> stands for a code point
  below 256.
\<close>

datatype json =
    JNull
  | JBool bool
  | JInt int
  | JStr string
  | JArr "json list"
  | JObj "(string \<times> json) list"

text \<open>An exception is its class name and what \<^verbatim>\<open>str(e)\<close> gives.\<close>

datatype py_exception = PyException (exc_class: string) (exc_str: string)

definition bind_exc :: "py_exception + 'a \<Rightarrow> ('a \<Rightarrow> py_exception + 'b) \<Rightarrow> py_exception + 'b" where
  "bind_exc m f = (case m of Inl e \<Rightarrow> Inl e | Inr v \<Rightarrow> f v)"

fun map_exc :: "('a \<Rightarrow> py_exception + 'b) \<Rightarrow> 'a list \<Rightarrow> py_exception + 'b list" where
  "map_exc f [] = Inr []"
| "map_exc f (x # xs) =
     (case f x of
        Inl e \<Rightarrow> Inl e
      | Inr y \<Rightarrow> (case map_exc f xs of Inl e \<Rightarrow> Inl e | Inr ys \<Rightarrow> Inr (y # ys)))"

fun type_name :: "json \<Rightarrow> string" where
  "type_name JNull = ''NoneType''"
| "type_name (JBool b) = ''bool''"
| "type_name (JInt i) = ''int''"
| "type_name (JStr s) = ''str''"
| "type_name (JArr xs) = ''list''"
| "type_name (JObj kvs) = ''dict''"

definition squote :: "string \<Rightarrow> string" where
  "squote s = CHR 0x27 # s @ [CHR 0x27]"

definition no_attribute :: "json \<Rightarrow> string \<Rightarrow> py_exception" where
  "no_attribute v a =
     PyException ''AttributeError'' (squote (type_name v) @ '' object has no attribute '' @ squote a)"

definition not_iterable :: "json \<Rightarrow> py_exception" where
  "not_iterable v = PyException ''TypeError'' (squote (type_name v) @ '' object is not iterable'')"

text \<open>\<^verbatim>\<open>x.get(k, d)\<close>: only a dict has the method.\<close>

fun py_get :: "json \<Rightarrow> string \<Rightarrow> json \<Rightarrow> py_exception + json" where
  "py_get (JObj kvs) k d = Inr (case map_of kvs k of None \<Rightarrow> d | Some v \<Rightarrow> v)"
| "py_get v k d = Inl (no_attribute v ''get'')"

text \<open>
  \<^verbatim>\<open>str.isspace\<close> on the code points below 256: tab to carriage return, the four
  separators 0x1c to 0x1f, space, NEL and the no-break space.
\<close>

definition py_isspace :: "char \<Rightarrow> bool" where
  "py_isspace c =
     (let n = (of_char c :: nat)
      in (9 \<le> n \<and> n \<le> 13) \<or> (28 \<le> n \<and> n \<le> 32) \<or> n = 133 \<or> n = 160)"

definition strip :: "string \<Rightarrow> string" where
  "strip s = rev (dropWhile py_isspace (rev (dropWhile py_isspace s)))"

text \<open>\<^verbatim>\<open>x.strip()\<close>: only a str has the method.\<close>

fun py_strip :: "json \<Rightarrow> py_exception + json" where
  "py_strip (JStr s) = Inr (JStr (strip s))"
| "py_strip v = Inl (no_attribute v ''strip'')"

text \<open>
  \<^verbatim>\<open>for email in raw_data\<close>: a list gives its elements, a dict its keys, a str its
  characters; nothing else can be iterated.
\<close>

fun py_iter :: "json \<Rightarrow> py_exception + json list" where
  "py_iter (JArr xs) = Inr xs"
| "py_iter (JObj kvs) = Inr (map (\<lambda>kv. JStr (fst kv)) kvs)"
| "py_iter (JStr s) = Inr (map (\<lambda>c. JStr [c]) s)"
| "py_iter v = Inl (not_iterable v)"

section \<open>The endpoint boundary\<close>

record http_response =
  status :: nat
  body :: json

text \<open>
  Every handler has the same frame: \<^verbatim>\<open>try: ... return value\<close> and
  \<^verbatim>\<open>except Exception as e: raise HTTPException(status_code=500, detail=str(e))\<close>.
  A returned value is answered with status 200, an \<^verbatim>\<open>HTTPException\<close> with its status
  code and the body \<^verbatim>\<open>{"detail": detail}\<close>. The two \<^verbatim>\<open>logger.error\<close> calls write a log
  line and change nothing else.
\<close>

definition HTTPException :: "nat \<Rightarrow> string \<Rightarrow> http_response" where
  "HTTPException status_code detail = \<lparr>status = status_code, body = JObj [(''detail'', JStr detail)]\<rparr>"

definition catch_all :: "py_exception + json \<Rightarrow> http_response" where
  "catch_all r =
     (case r of
        Inl e \<Rightarrow> HTTPException 500 (exc_str e)
      | Inr v \<Rightarrow> \<lparr>status = 200, body = v\<rparr>)"

section \<open>The wrapper-backed endpoints\<close>

text \<open>
  \<^verbatim>\<open>UnipileWrapper\<close> (imported from \<^verbatim>\<open>.server\<close>) is handed in: each method either
  raises or returns a string; the method \<^verbatim>\<open>get_emails\<close> is the field \<open>w_get_emails\<close>, and
  so on. \<^verbatim>\<open>json.loads\<close> is handed in as \<open>loads\<close>. The global
  \<^verbatim>\<open>unipile\<close> is \<^verbatim>\<open>None\<close> until the lifespan has set it.
\<close>

record wrapper =
  w_get_accounts :: "py_exception + string"
  w_get_all_messages :: "string \<Rightarrow> int \<Rightarrow> py_exception + string"
  w_get_emails :: "string \<Rightarrow> int \<Rightarrow> py_exception + string"

definition unipile_attr :: "wrapper option \<Rightarrow> string \<Rightarrow> py_exception + wrapper" where
  "unipile_attr unipile a =
     (case unipile of None \<Rightarrow> Inl (no_attribute JNull a) | Some w \<Rightarrow> Inr w)"

definition get_accounts ::
  "wrapper option \<Rightarrow> (string \<Rightarrow> py_exception + json) \<Rightarrow> http_response" where
  "get_accounts unipile loads =
     catch_all
       (bind_exc (unipile_attr unipile ''get_accounts'') (\<lambda>w.
        bind_exc (w_get_accounts w) (\<lambda>s.
        bind_exc (loads s) (\<lambda>data.
        Inr (JObj [(''data'', data)])))))"


text \<open>The dict display of \<^verbatim>\<open>get_emails\<close>, its five values evaluated in order.\<close>

definition project_email :: "json \<Rightarrow> py_exception + json" where
  "project_email email =
     bind_exc (py_get email ''id'' JNull) (\<lambda>i.
     bind_exc (py_get email ''subject'' JNull) (\<lambda>s.
     bind_exc (py_get email ''date'' JNull) (\<lambda>d.
     bind_exc (py_get email ''from_attendee'' (JObj [])) (\<lambda>fa.
     bind_exc (py_get fa ''email'' JNull) (\<lambda>f.
     bind_exc (py_get email ''body_markdown'' (JStr [])) (\<lambda>bm.
     bind_exc (py_strip bm) (\<lambda>b.
     Inr (JObj [(''id'', i), (''subject'', s), (''date'', d), (''from'', f), (''body'', b)]))))))))"

definition get_emails ::
  "wrapper option \<Rightarrow> (string \<Rightarrow> py_exception + json) \<Rightarrow> string \<Rightarrow> int \<Rightarrow> http_response" where
  "get_emails unipile loads account_id limit =
     catch_all
       (bind_exc (unipile_attr unipile ''get_emails'') (\<lambda>w.
        bind_exc (w_get_emails w account_id limit) (\<lambda>s.
        bind_exc (loads s) (\<lambda>raw_data.
        bind_exc (py_iter raw_data) (\<lambda>items.
        bind_exc (map_exc project_email items) (\<lambda>emails.
        Inr (JObj [(''emails'', JArr emails)])))))))"

section \<open>The endpoints that call the provider themselves\<close>

text \<open>
  \<^verbatim>\<open>UNIPILE_DSN\<close> and \<^verbatim>\<open>UNIPILE_API_KEY\<close> are read by \<^verbatim>\<open>os.getenv\<close> when the module
  is loaded, so each may be \<^verbatim>\<open>None\<close>; an f-string prints \<^verbatim>\<open>None\<close> as the word.
\<close>

record config =
  UNIPILE_DSN :: "string option"
  UNIPILE_API_KEY :: "string option"

definition emails_url :: "config \<Rightarrow> string" where
  "emails_url cfg =
     ''https://'' @ (case UNIPILE_DSN cfg of None \<Rightarrow> ''None'' | Some d \<Rightarrow> d) @ ''/api/v1/emails''"

text \<open>
  The arguments of one \<^verbatim>\<open>requests.post\<close> call: the url, the headers, and either
  \<^verbatim>\<open>json=payload\<close> or \<^verbatim>\<open>data=data, files=files\<close>. An upload is its file name and
  its content (\<^verbatim>\<open>attachment.file\<close>, here \<open>file_content\<close>). A reply of the provider is
  its status code, reason, url and text (\<^verbatim>\<open>response.text\<close>, here \<open>reply_text\<close>).
\<close>

record upload_file =
  filename :: "string option"
  file_content :: string

datatype post_body =
    JsonBody json
  | FormBody "(string \<times> string) list" "(string \<times> string option \<times> string) list option"

record upstream_request =
  url :: string
  headers :: "(string \<times> string option) list"
  rq_payload :: post_body

record http_reply =
  status_code :: nat
  reason :: string
  reply_url :: string
  reply_text :: string

fun dec :: "nat \<Rightarrow> string" where
  "dec n = (if n < 10 then [char_of (48 + n)] else dec (n div 10) @ [char_of (48 + n mod 10)])"

declare dec.simps [simp del]

text \<open>
  \<^verbatim>\<open>Response.raise_for_status\<close> of the requests library: the message is
  \<^verbatim>\<open>"{status_code} Client Error: {reason} for url: {url}"\<close> for a status from 400 to
  499, the same with \<^verbatim>\<open>Server Error\<close> from 500 to 599, and empty for any other status;
  an \<^verbatim>\<open>HTTPError\<close> with the message is raised when the message is not empty.
\<close>

definition http_error_msg :: "http_reply \<Rightarrow> string" where
  "http_error_msg r =
     (if 400 \<le> status_code r \<and> status_code r < 500 then
        dec (status_code r) @ '' Client Error: '' @ reason r @ '' for url: '' @ reply_url r
      else if 500 \<le> status_code r \<and> status_code r < 600 then
        dec (status_code r) @ '' Server Error: '' @ reason r @ '' for url: '' @ reply_url r
      else [])"

definition raise_for_status :: "http_reply \<Rightarrow> py_exception + unit" where
  "raise_for_status r =
     (if http_error_msg r \<noteq> [] then Inl (PyException ''HTTPError'' (http_error_msg r)) else Inr ())"

text \<open>
  The request model of \<^verbatim>\<open>reply_email\<close>; \<^verbatim>\<open>cc\<close> and \<^verbatim>\<open>bcc\<close> default to \<^verbatim>\<open>None\<close>.
  Its field \<^verbatim>\<open>body\<close> is \<open>body_text\<close> here, as \<open>body\<close> is the body of a response.
\<close>

record EmailRequest =
  account_id :: string
  subject :: string
  body_text :: string
  to :: "json list"
  cc :: "json list option"
  bcc :: "json list option"

text \<open>
  A handler that posts returns its response together with the \<^verbatim>\<open>requests.post\<close> calls
  it made, in order. \<open>post\<close> is the network: it raises or hands back the reply.
  \<open>dumps\<close> is \<^verbatim>\<open>json.dumps\<close>.
\<close>

definition reply_form :: "(json \<Rightarrow> string) \<Rightarrow> EmailRequest \<Rightarrow> string \<Rightarrow> (string \<times> string) list" where
  "reply_form dumps request reply_to =
     [(''account_id'', account_id request),
      (''subject'', subject request),
      (''body'', body_text request),
      (''to'', dumps (JArr (to request))),
      (''reply_to'', reply_to)]"

definition reply_files :: "upload_file option \<Rightarrow> (string \<times> string option \<times> string) list option" where
  "reply_files attachment =
     (case attachment of
        None \<Rightarrow> None
      | Some a \<Rightarrow> Some [(''attachments'', (filename a, file_content a))])"

definition reply_request ::
  "config \<Rightarrow> (json \<Rightarrow> string) \<Rightarrow> EmailRequest \<Rightarrow> string \<Rightarrow> upload_file option \<Rightarrow> upstream_request" where
  "reply_request cfg dumps request reply_to attachment =
     \<lparr>url = emails_url cfg,
      headers = [(''X-API-KEY'', UNIPILE_API_KEY cfg), (''accept'', Some ''application/json'')],
      rq_payload = FormBody (reply_form dumps request reply_to) (reply_files attachment)\<rparr>"

definition reply_email ::
  "config \<Rightarrow> (json \<Rightarrow> string) \<Rightarrow> (upstream_request \<Rightarrow> py_exception + http_reply) \<Rightarrow>
   EmailRequest \<Rightarrow> string \<Rightarrow> upload_file option \<Rightarrow> http_response \<times> upstream_request list" where
  "reply_email cfg dumps post request reply_to attachment =
     (let rq = reply_request cfg dumps request reply_to attachment
      in (catch_all
            (bind_exc (post rq) (\<lambda>response.
             bind_exc (raise_for_status response) (\<lambda>_.
             Inr (JObj [(''message'', JStr ''Reply sent successfully'')])))),
          [rq]))"

definition send_request :: "config \<Rightarrow> json \<Rightarrow> upstream_request" where
  "send_request cfg payload =
     \<lparr>url = emails_url cfg,
      headers = [(''X-API-KEY'', UNIPILE_API_KEY cfg), (''accept'', Some ''application/json''),
                 (''Content-Type'', Some ''application/json'')],
      rq_payload = JsonBody payload\<rparr>"

text \<open>
  \<^verbatim>\<open>send_email\<close>: \<open>raw\<close> is the body of the inbound request, parsed by
  \<^verbatim>\<open>await request.json()\<close>; the reply is parsed by \<^verbatim>\<open>response.json()\<close>. Both decode
  with \<open>loads\<close>.
\<close>

definition send_email ::
  "config \<Rightarrow> (string \<Rightarrow> py_exception + json) \<Rightarrow> (upstream_request \<Rightarrow> py_exception + http_reply) \<Rightarrow>
   string \<Rightarrow> http_response \<times> upstream_request list" where
  "send_email cfg loads post raw =
     (case loads raw of
        Inl e \<Rightarrow> (catch_all (Inl e), [])
      | Inr payload \<Rightarrow>
          (let rq = send_request cfg payload
           in (catch_all
                 (bind_exc (post rq) (\<lambda>response.
                  bind_exc (raise_for_status response) (\<lambda>_.
                  bind_exc (loads (reply_text response)) (\<lambda>j.
                  Inr (JObj [(''message'', JStr ''Email sent successfully''), (''response'', j)]))))),
               [rq])))"

section \<open>Startup\<close>

text \<open>
  The global state \<^verbatim>\<open>lifespan\<close> writes: the \<^verbatim>\<open>unipile\<close> client, and a record of every
  \<^verbatim>\<open>UnipileWrapper(dsn=..., api_key=...)\<close> construction performed. \<open>os_getenv\<close> is the
  process environment.
\<close>

record globals =
  unipile :: "wrapper option"
  constructed :: "(string \<times> string) list"

definition truthy :: "string option \<Rightarrow> bool" where
  "truthy v = (case v of None \<Rightarrow> False | Some s \<Rightarrow> s \<noteq> [])"

definition lifespan ::
  "(string \<Rightarrow> string \<Rightarrow> wrapper) \<Rightarrow> (string \<Rightarrow> string option) \<Rightarrow> globals \<Rightarrow> py_exception + globals" where
  "lifespan UnipileWrapper os_getenv g =
     (let dsn = os_getenv ''UNIPILE_DSN'';
          api_key = os_getenv ''UNIPILE_API_KEY''
      in if \<not> truthy dsn \<or> \<not> truthy api_key then
           Inl (PyException ''RuntimeError''
                  ''Missing UNIPILE_DSN or UNIPILE_API_KEY environment variables'')
         else
           Inr (g\<lparr>unipile := Some (UnipileWrapper (the dsn) (the api_key)),
                  constructed := constructed g @ [(the dsn, the api_key)]\<rparr>))"

text \<open>
  The application as FastAPI runs it: the lifespan comes first, from the initial globals
  of the module (\<^verbatim>\<open>unipile = None\<close>); when it raises, startup has failed and no request
  is dispatched; otherwise each request is dispatched to its handler.
\<close>

datatype server = StartupFailed py_exception | Running globals

definition startup :: "(string \<Rightarrow> string \<Rightarrow> wrapper) \<Rightarrow> (string \<Rightarrow> string option) \<Rightarrow> server" where
  "startup UnipileWrapper os_getenv =
     (case lifespan UnipileWrapper os_getenv \<lparr>unipile = None, constructed = []\<rparr> of
        Inl e \<Rightarrow> StartupFailed e
      | Inr g \<Rightarrow> Running g)"

fun serve :: "server \<Rightarrow> (globals \<Rightarrow> 'r) \<Rightarrow> 'r option" where
  "serve (StartupFailed e) handler = None"
| "serve (Running g) handler = Some (handler g)"

section \<open>The parameters of the handlers\<close>









section \<open>The listing contract of the specification\<close>


section \<open>The Email Summary of the specification\<close>

text \<open>
  The projection as section 3 of the specification words it, for a record given by its
  fields: id, subject and date as upstream has them, the sender's address, the trimmed
  markdown body; a field that upstream does not have is null, a body it does not have is
  empty. \<open>sender_ok\<close> and \<open>body_ok\<close> say that the sender, when the record has one, is an
  object, and the markdown body, when it has one, a string.
\<close>

definition field_or_null :: "(string \<times> json) list \<Rightarrow> string \<Rightarrow> json" where
  "field_or_null kvs k = (case map_of kvs k of None \<Rightarrow> JNull | Some v \<Rightarrow> v)"

definition sender_ok :: "(string \<times> json) list \<Rightarrow> bool" where
  "sender_ok kvs =
     (case map_of kvs ''from_attendee'' of None \<Rightarrow> True | Some (JObj fa) \<Rightarrow> True | Some _ \<Rightarrow> False)"

definition body_ok :: "(string \<times> json) list \<Rightarrow> bool" where
  "body_ok kvs =
     (case map_of kvs ''body_markdown'' of None \<Rightarrow> True | Some (JStr s) \<Rightarrow> True | Some _ \<Rightarrow> False)"

definition sender_address :: "(string \<times> json) list \<Rightarrow> json" where
  "sender_address kvs =
     (case map_of kvs ''from_attendee'' of Some (JObj fa) \<Rightarrow> field_or_null fa ''email'' | _ \<Rightarrow> JNull)"

definition markdown_body :: "(string \<times> json) list \<Rightarrow> string" where
  "markdown_body kvs = (case map_of kvs ''body_markdown'' of Some (JStr s) \<Rightarrow> s | _ \<Rightarrow> [])"

definition email_summary :: "(string \<times> json) list \<Rightarrow> json" where
  "email_summary kvs =
     JObj [(''id'', field_or_null kvs ''id''),
           (''subject'', field_or_null kvs ''subject''),
           (''date'', field_or_null kvs ''date''),
           (''from'', sender_address kvs),
           (''body'', JStr (strip (markdown_body kvs)))]"

section \<open>Example inputs\<close>

text \<open>
  Concrete inputs for evaluating the handlers: a decoder that knows a handful of JSON
  texts and rejects every other text as \<^verbatim>\<open>json.loads\<close> rejects a text that is not
  JSON, a provider reply, and a wrapper whose three methods return one given text.
\<close>

definition example_loads :: "string \<Rightarrow> py_exception + json" where
  \<open>example_loads s =
     (if s = ''[{"id": "e1"}, {"id": "e2"}, {"id": "e3"}]'' then
        Inr (JArr [JObj [(''id'', JStr ''e1'')], JObj [(''id'', JStr ''e2'')], JObj [(''id'', JStr ''e3'')]])
      else if s = ''[{"id": "e1", "from_attendee": null}]'' then
        Inr (JArr [JObj [(''id'', JStr ''e1''), (''from_attendee'', JNull)]])
      else if s = ''[{"id": "e1", "from_attendee": {"email": "a@b.c"}, "body_markdown": " hi ", "role": "inbox"}, {"id": "e2"}]'' then
        Inr (JArr [JObj [(''id'', JStr ''e1''), (''from_attendee'', JObj [(''email'', JStr ''a@b.c'')]),
                         (''body_markdown'', JStr '' hi ''), (''role'', JStr ''inbox'')],
                   JObj [(''id'', JStr ''e2'')]])
      else if s = ''{"account_id": "a1"}'' then
        Inr (JObj [(''account_id'', JStr ''a1'')])
      else if s = ''{"account_id": "a1", "subject": "Hi", "body": "Test", "to": ["x@y.com"]}'' then
        Inr (JObj [(''account_id'', JStr ''a1''), (''subject'', JStr ''Hi''), (''body'', JStr ''Test''),
                   (''to'', JArr [JStr ''x@y.com''])])
      else if s = ''{"id": "m1"}'' then
        Inr (JObj [(''id'', JStr ''m1'')])
      else if s = ''null'' then
        Inr JNull
      else Inl (PyException ''JSONDecodeError'' ''Expecting value: line 1 column 1 (char 0)''))\<close>

definition example_reply :: "nat \<Rightarrow> string \<Rightarrow> string \<Rightarrow> http_reply" where
  "example_reply st rs txt =
     \<lparr>status_code = st, reason = rs, reply_url = ''https://api.example/api/v1/emails'', reply_text = txt\<rparr>"

definition three_emails :: string where
  \<open>three_emails = ''[{"id": "e1"}, {"id": "e2"}, {"id": "e3"}]''\<close>

definition null_sender :: string where
  \<open>null_sender = ''[{"id": "e1", "from_attendee": null}]''\<close>

definition two_emails :: string where
  \<open>two_emails = ''[{"id": "e1", "from_attendee": {"email": "a@b.c"}, "body_markdown": " hi ", "role": "inbox"}, {"id": "e2"}]''\<close>

definition example_wrapper :: "string \<Rightarrow> wrapper" where
  "example_wrapper txt =
     \<lparr>w_get_accounts = Inr txt, w_get_all_messages = (\<lambda>a n. Inr txt), w_get_emails = (\<lambda>a n. Inr txt)\<rparr>"

definition example_cfg :: config where
  "example_cfg = \<lparr>UNIPILE_DSN = Some ''api1.unipile.com:13111'', UNIPILE_API_KEY = Some ''secret''\<rparr>"

definition scenario_body :: string where
  \<open>scenario_body = ''{"account_id": "a1", "subject": "Hi", "body": "Test", "to": ["x@y.com"]}''\<close>


definition sent_text :: string where
  \<open>sent_text = ''{"id": "m1"}''\<close>

definition example_dumps :: "json \<Rightarrow> string" where
  \<open>example_dumps j = (if j = JArr [JStr ''x@y.com''] then ''["x@y.com"]'' else ''null'')\<close>

definition example_request :: EmailRequest where
  "example_request =
     \<lparr>account_id = ''a1'', subject = ''Hi'', body_text = ''Test'', to = [JStr ''x@y.com''],
      cc = None, bcc = None\<rparr>"




section \<open>Auxiliary facts\<close>

lemma bind_exc_Inr [simp]: "bind_exc (Inr v) f = f v"
  by (simp add: bind_exc_def)

lemma bind_exc_Inl [simp]: "bind_exc (Inl e) f = Inl e"
  by (simp add: bind_exc_def)

lemma bind_exc_eq_Inr: "bind_exc m f = Inr y \<longleftrightarrow> (\<exists>v. m = Inr v \<and> f v = Inr y)"
  by (cases m) simp_all

lemma map_exc_pointwise: "(\<And>x. x \<in> set xs \<Longrightarrow> f x = Inr (g x)) \<Longrightarrow> map_exc f xs = Inr (map g xs)"
  by (induction xs) simp_all


lemma strip_Nil [simp]: "strip [] = []"
  by (simp add: strip_def)

lemma project_email_JObj:
  assumes "sender_ok kvs" and "body_ok kvs"
  shows "project_email (JObj kvs) = Inr (email_summary kvs)"
  using assms
  by (auto simp: project_email_def email_summary_def sender_ok_def body_ok_def field_or_null_def
      sender_address_def markdown_body_def split: option.splits json.splits)

lemma project_email_shape:
  assumes "project_email r = Inr p"
  shows "\<exists>i s d f b. p = JObj [(''id'', i), (''subject'', s), (''date'', d), (''from'', f), (''body'', JStr b)]"
proof -
  obtain kvs where r: "r = JObj kvs"
    using assms by (cases r) (simp_all add: project_email_def)
  show ?thesis
    using assms unfolding r project_email_def
    by (auto simp: bind_exc_eq_Inr elim!: py_strip.elims py_get.elims)
qed

lemma project_summary:
  "project_email (JObj [(''id'', i), (''subject'', s), (''date'', d), (''from'', f), (''body'', b)])
     = Inr (JObj [(''id'', i), (''subject'', s), (''date'', d), (''from'', JNull), (''body'', JStr [])])"
  by (simp add: project_email_def)


lemma rev_dropWhile_takeWhile:
  "rev (dropWhile P (rev t)) @ rev (takeWhile P (rev t)) = t"
proof -
  have "rev (dropWhile P (rev t)) @ rev (takeWhile P (rev t)) =
        rev (takeWhile P (rev t) @ dropWhile P (rev t))"
    by (simp only: rev_append)
  also have "\<dots> = rev (rev t)"
    by (simp only: takeWhile_dropWhile_id)
  finally show ?thesis by simp
qed

lemma strip_suffix:
  "dropWhile py_isspace s = strip s @ rev (takeWhile py_isspace (rev (dropWhile py_isspace s)))"
  unfolding strip_def by (rule rev_dropWhile_takeWhile [symmetric])

lemma strip_decomp:
  "\<exists>pre suf. s = pre @ strip s @ suf \<and> list_all py_isspace pre \<and> list_all py_isspace suf"
proof -
  define t where "t = dropWhile py_isspace s"
  have "s = takeWhile py_isspace s @ t"
    by (simp add: t_def)
  then have "s = takeWhile py_isspace s @ strip s @ rev (takeWhile py_isspace (rev t))"
    using strip_suffix [of s] by (simp add: t_def)
  moreover have "list_all py_isspace (takeWhile py_isspace s)"
    by (simp add: list_all_iff) (meson set_takeWhileD)
  moreover have "list_all py_isspace (rev (takeWhile py_isspace (rev t)))"
    by (simp add: list_all_iff) (meson set_takeWhileD)
  ultimately show ?thesis by blast
qed

lemma strip_trimmed:
  assumes "strip s \<noteq> []"
  shows "\<not> py_isspace (hd (strip s)) \<and> \<not> py_isspace (last (strip s))"
proof -
  define t where "t = dropWhile py_isspace s"
  define u where "u = dropWhile py_isspace (rev t)"
  have su: "strip s = rev u"
    by (simp add: strip_def t_def u_def)
  have u: "u \<noteq> []"
    using assms su by simp
  have "\<not> py_isspace (hd u)"
    using u unfolding u_def by (rule hd_dropWhile)
  then have l: "\<not> py_isspace (last (strip s))"
    using u su by (simp add: last_rev)
  have tn: "t \<noteq> []"
    using u unfolding u_def by auto
  have t: "\<not> py_isspace (hd t)"
    using tn unfolding t_def by (rule hd_dropWhile)
  have "hd t = hd (strip s)"
    using assms strip_suffix [of s] unfolding t_def by (metis hd_append2)
  with t l show ?thesis by simp
qed

lemma get_emails_Some:
  "get_emails (Some w) loads a n =
     catch_all (bind_exc (w_get_emails w a n) (\<lambda>s. bind_exc (loads s) (\<lambda>raw_data.
       bind_exc (py_iter raw_data) (\<lambda>items. bind_exc (map_exc project_email items) (\<lambda>emails.
         Inr (JObj [(''emails'', JArr emails)]))))))"
  by (simp add: get_emails_def unipile_attr_def)



lemma http_error_msg_empty:
  "http_error_msg r = [] \<longleftrightarrow> \<not> (400 \<le> status_code r \<and> status_code r < 600)"
  by (auto simp: http_error_msg_def)

lemma raise_for_status_ok:
  "\<not> (400 \<le> status_code r \<and> status_code r < 600) \<Longrightarrow> raise_for_status r = Inr ()"
  by (simp add: raise_for_status_def http_error_msg_empty)


lemma send_email_decoded:
  "loads raw = Inr payload \<Longrightarrow>
   send_email cfg loads post raw =
     (catch_all
        (bind_exc (post (send_request cfg payload)) (\<lambda>response.
         bind_exc (raise_for_status response) (\<lambda>_.
         bind_exc (loads (reply_text response)) (\<lambda>j.
         Inr (JObj [(''message'', JStr ''Email sent successfully''), (''response'', j)]))))),
      [send_request cfg payload])"
  by (simp add: send_email_def Let_def)


lemma raise_for_status_2xx:
  "200 \<le> status_code r \<Longrightarrow> status_code r < 300 \<Longrightarrow> raise_for_status r = Inr ()"
  by (rule raise_for_status_ok) simp

lemma snd_reply_email:
  "snd (reply_email cfg dumps post request reply_to attachment) =
     [reply_request cfg dumps request reply_to attachment]"
  by (simp add: reply_email_def Let_def)


lemma status_HTTPException [simp]: "status (HTTPException c d) = c"
  by (simp add: HTTPException_def)






section \<open>The claims\<close>

subsection \<open>C1: failures at the endpoint boundary\<close>




subsection \<open>C2: projecting a projected record\<close>

theorem C2_projection_not_idempotent:
  "project_email
     (JObj [(''id'', JStr ''e1''), (''from_attendee'', JObj [(''email'', JStr ''a@b.c'')]),
            (''body_markdown'', JStr '' hi '')]) =
   Inr (JObj [(''id'', JStr ''e1''), (''subject'', JNull), (''date'', JNull),
              (''from'', JStr ''a@b.c''), (''body'', JStr ''hi'')]) \<and>
   project_email
     (JObj [(''id'', JStr ''e1''), (''subject'', JNull), (''date'', JNull),
            (''from'', JStr ''a@b.c''), (''body'', JStr ''hi'')]) =
   Inr (JObj [(''id'', JStr ''e1''), (''subject'', JNull), (''date'', JNull),
              (''from'', JNull), (''body'', JStr [])]) \<and>
   project_email
     (JObj [(''id'', JStr ''e1''), (''subject'', JNull), (''date'', JNull),
            (''from'', JStr ''a@b.c''), (''body'', JStr ''hi'')]) \<noteq>
   Inr (JObj [(''id'', JStr ''e1''), (''subject'', JNull), (''date'', JNull),
              (''from'', JStr ''a@b.c''), (''body'', JStr ''hi'')])"
  by code_simp

text \<open>
  Claim C2, as the code has it. The projection reads \<^verbatim>\<open>from_attendee.email\<close> and
  \<^verbatim>\<open>body_markdown\<close> and writes \<^verbatim>\<open>from\<close> and \<^verbatim>\<open>body\<close>. So whenever a record \<open>r\<close>
  projects to \<open>p\<close>, then \<open>p\<close> has exactly the keys id, subject, date, from, body, its body
  a string; projecting \<open>p\<close> again keeps id, subject and date, and gives null for from and
  the empty string for body; and \<open>p\<close> is returned unchanged exactly when its from is null
  and its body is empty.
\<close>

theorem C2_projection_of_projected:
  assumes "project_email r = Inr p"
  shows "\<exists>i s d f b.
           p = JObj [(''id'', i), (''subject'', s), (''date'', d), (''from'', f), (''body'', JStr b)] \<and>
           project_email p =
             Inr (JObj [(''id'', i), (''subject'', s), (''date'', d), (''from'', JNull), (''body'', JStr [])]) \<and>
           (project_email p = Inr p \<longleftrightarrow> f = JNull \<and> b = [])"
proof -
  obtain i s d f b where
    p: "p = JObj [(''id'', i), (''subject'', s), (''date'', d), (''from'', f), (''body'', JStr b)]"
    using project_email_shape [OF assms] by blast
  have q: "project_email p =
      Inr (JObj [(''id'', i), (''subject'', s), (''date'', d), (''from'', JNull), (''body'', JStr [])])"
    unfolding p by (rule project_summary)
  have "project_email p = Inr p \<longleftrightarrow> f = JNull \<and> b = []"
    unfolding q unfolding p by auto
  with p q show ?thesis by blast
qed

theorem C2_projection_of_projected_witness:
  "\<exists>i s d f b.
     JObj [(''id'', JStr ''e1''), (''subject'', JNull), (''date'', JNull),
           (''from'', JStr ''a@b.c''), (''body'', JStr ''hi'')] =
       JObj [(''id'', i), (''subject'', s), (''date'', d), (''from'', f), (''body'', JStr b)] \<and>
     project_email
       (JObj [(''id'', JStr ''e1''), (''subject'', JNull), (''date'', JNull),
              (''from'', JStr ''a@b.c''), (''body'', JStr ''hi'')]) =
       Inr (JObj [(''id'', i), (''subject'', s), (''date'', d), (''from'', JNull), (''body'', JStr [])]) \<and>
     (project_email
        (JObj [(''id'', JStr ''e1''), (''subject'', JNull), (''date'', JNull),
               (''from'', JStr ''a@b.c''), (''body'', JStr ''hi'')]) =
        Inr (JObj [(''id'', JStr ''e1''), (''subject'', JNull), (''date'', JNull),
                   (''from'', JStr ''a@b.c''), (''body'', JStr ''hi'')])
      \<longleftrightarrow> f = JNull \<and> b = [])"
proof -
  have h: "project_email
      (JObj [(''id'', JStr ''e1''), (''from_attendee'', JObj [(''email'', JStr ''a@b.c'')]),
             (''body_markdown'', JStr '' hi '')]) =
    Inr (JObj [(''id'', JStr ''e1''), (''subject'', JNull), (''date'', JNull),
               (''from'', JStr ''a@b.c''), (''body'', JStr ''hi'')])"
    by code_simp
  show ?thesis by (rule C2_projection_of_projected [OF h])
qed

subsection \<open>C3: how long the returned lists are\<close>



subsection \<open>C4: the email list of \<^verbatim>\<open>get_emails\<close>\<close>

theorem C4_null_sender_raises:
  "get_emails (Some (example_wrapper null_sender)) example_loads ''a1'' 10 =
     HTTPException 500 (squote ''NoneType'' @ '' object has no attribute '' @ squote ''get'')"
  by code_simp

text \<open>
  Claim C4, as the code has it. When the upstream list consists of objects whose
  \<^verbatim>\<open>from_attendee\<close>, if present, is an object and whose \<^verbatim>\<open>body_markdown\<close>, if present,
  is a string, \<^verbatim>\<open>get_emails\<close> answers 200 with one summary per record in the upstream
  order. Each summary has exactly the keys id, subject, date, from, body; every other
  field is dropped; a field that is missing is null, a missing body the empty string, and
  nothing is raised. The body is the markdown body without the white space at its two
  ends: what is cut off on either side is white space only, and what is left neither
  starts nor ends with white space.
\<close>

theorem C4_emails_projected_in_order:
  assumes "w_get_emails w a n = Inr s"
      and "loads s = Inr (JArr (map JObj rs))"
      and "\<forall>kvs \<in> set rs. sender_ok kvs \<and> body_ok kvs"
  shows "get_emails (Some w) loads a n =
           \<lparr>status = 200, body = JObj [(''emails'', JArr (map email_summary rs))]\<rparr> \<and>
         (\<forall>kvs \<in> set rs. \<exists>i sj d f b pre suf.
            email_summary kvs =
              JObj [(''id'', i), (''subject'', sj), (''date'', d), (''from'', f), (''body'', JStr b)] \<and>
            markdown_body kvs = pre @ b @ suf \<and> list_all py_isspace pre \<and> list_all py_isspace suf \<and>
            (b = [] \<or> (\<not> py_isspace (hd b) \<and> \<not> py_isspace (last b))))"
proof
  have "map_exc project_email (map JObj rs) = Inr (map (\<lambda>r. email_summary (case r of JObj kvs \<Rightarrow> kvs)) (map JObj rs))"
    using assms(3) by (intro map_exc_pointwise) (auto simp: project_email_JObj)
  then have "map_exc project_email (map JObj rs) = Inr (map email_summary rs)"
    by (simp add: comp_def)
  then show "get_emails (Some w) loads a n =
      \<lparr>status = 200, body = JObj [(''emails'', JArr (map email_summary rs))]\<rparr>"
    using assms(1,2) by (simp add: get_emails_Some catch_all_def)
next
  show "\<forall>kvs \<in> set rs. \<exists>i sj d f b pre suf.
            email_summary kvs =
              JObj [(''id'', i), (''subject'', sj), (''date'', d), (''from'', f), (''body'', JStr b)] \<and>
            markdown_body kvs = pre @ b @ suf \<and> list_all py_isspace pre \<and> list_all py_isspace suf \<and>
            (b = [] \<or> (\<not> py_isspace (hd b) \<and> \<not> py_isspace (last b)))"
  proof
    fix kvs assume "kvs \<in> set rs"
    obtain pre suf where d: "markdown_body kvs = pre @ strip (markdown_body kvs) @ suf"
        "list_all py_isspace pre" "list_all py_isspace suf"
      using strip_decomp [of "markdown_body kvs"] by blast
    have t: "strip (markdown_body kvs) = [] \<or>
        (\<not> py_isspace (hd (strip (markdown_body kvs))) \<and> \<not> py_isspace (last (strip (markdown_body kvs))))"
      using strip_trimmed [of "markdown_body kvs"] by blast
    show "\<exists>i sj d f b pre suf.
            email_summary kvs =
              JObj [(''id'', i), (''subject'', sj), (''date'', d), (''from'', f), (''body'', JStr b)] \<and>
            markdown_body kvs = pre @ b @ suf \<and> list_all py_isspace pre \<and> list_all py_isspace suf \<and>
            (b = [] \<or> (\<not> py_isspace (hd b) \<and> \<not> py_isspace (last b)))"
      unfolding email_summary_def using d t by blast
  qed
qed

theorem C4_emails_projected_in_order_witness:
  "get_emails (Some (example_wrapper two_emails)) example_loads ''a1'' 10 =
     \<lparr>status = 200, body = JObj [(''emails'', JArr
        [JObj [(''id'', JStr ''e1''), (''subject'', JNull), (''date'', JNull), (''from'', JStr ''a@b.c''), (''body'', JStr ''hi'')],
         JObj [(''id'', JStr ''e2''), (''subject'', JNull), (''date'', JNull), (''from'', JNull), (''body'', JStr [])]])]\<rparr>"
proof -
  let ?rs = "[[(''id'', JStr ''e1''), (''from_attendee'', JObj [(''email'', JStr ''a@b.c'')]),
               (''body_markdown'', JStr '' hi ''), (''role'', JStr ''inbox'')],
              [(''id'', JStr ''e2'')]]"
  have h1: "w_get_emails (example_wrapper two_emails) ''a1'' 10 = Inr two_emails"
    by (simp add: example_wrapper_def)
  have h2: "example_loads two_emails = Inr (JArr (map JObj ?rs))"
    by code_simp
  have h3: "\<forall>kvs \<in> set ?rs. sender_ok kvs \<and> body_ok kvs"
    by (simp add: sender_ok_def body_ok_def)
  have e: "map email_summary ?rs =
        [JObj [(''id'', JStr ''e1''), (''subject'', JNull), (''date'', JNull), (''from'', JStr ''a@b.c''), (''body'', JStr ''hi'')],
         JObj [(''id'', JStr ''e2''), (''subject'', JNull), (''date'', JNull), (''from'', JNull), (''body'', JStr [])]]"
    by code_simp
  show ?thesis
    using C4_emails_projected_in_order [where loads = example_loads, OF h1 h2 h3] unfolding e by simp
qed

subsection \<open>C5: \<^verbatim>\<open>send_email\<close> forwards the body\<close>

text \<open>
  Claim C5. When the body of the request is a JSON object, \<^verbatim>\<open>send_email\<close> makes exactly
  one call, a POST to the emails path of the configured host, whose JSON payload is that
  object as it was received. When the call returns a reply with a status from 200 to
  299 whose body is JSON, the endpoint answers 200 with the message
  \<^verbatim>\<open>Email sent successfully\<close> and that JSON under \<^verbatim>\<open>response\<close>.
\<close>

theorem C5_send_forwards_verbatim:
  assumes "loads raw = Inr (JObj kvs)"
  shows "snd (send_email cfg loads post raw) =
           [\<lparr>url = emails_url cfg,
             headers = [(''X-API-KEY'', UNIPILE_API_KEY cfg), (''accept'', Some ''application/json''),
                        (''Content-Type'', Some ''application/json'')],
             rq_payload = JsonBody (JObj kvs)\<rparr>] \<and>
         (\<forall>r j. post (send_request cfg (JObj kvs)) = Inr r \<and> 200 \<le> status_code r \<and>
                 status_code r < 300 \<and> loads (reply_text r) = Inr j \<longrightarrow>
            fst (send_email cfg loads post raw) =
              \<lparr>status = 200,
               body = JObj [(''message'', JStr ''Email sent successfully''), (''response'', j)]\<rparr>)"
proof (intro conjI allI impI)
  show "snd (send_email cfg loads post raw) =
           [\<lparr>url = emails_url cfg,
             headers = [(''X-API-KEY'', UNIPILE_API_KEY cfg), (''accept'', Some ''application/json''),
                        (''Content-Type'', Some ''application/json'')],
             rq_payload = JsonBody (JObj kvs)\<rparr>]"
    by (simp add: send_email_decoded [where loads = loads, OF assms] send_request_def)
next
  fix r j
  assume "post (send_request cfg (JObj kvs)) = Inr r \<and> 200 \<le> status_code r \<and>
          status_code r < 300 \<and> loads (reply_text r) = Inr j"
  then show "fst (send_email cfg loads post raw) =
      \<lparr>status = 200,
       body = JObj [(''message'', JStr ''Email sent successfully''), (''response'', j)]\<rparr>"
    by (simp add: send_email_decoded [where loads = loads, OF assms] raise_for_status_2xx catch_all_def)
qed

theorem C5_send_forwards_verbatim_witness:
  "send_email example_cfg example_loads (\<lambda>rq. Inr (example_reply 200 ''OK'' sent_text)) scenario_body =
     (\<lparr>status = 200,
       body = JObj [(''message'', JStr ''Email sent successfully''),
                    (''response'', JObj [(''id'', JStr ''m1'')])]\<rparr>,
      [\<lparr>url = ''https://api1.unipile.com:13111/api/v1/emails'',
        headers = [(''X-API-KEY'', Some ''secret''), (''accept'', Some ''application/json''),
                   (''Content-Type'', Some ''application/json'')],
        rq_payload = JsonBody (JObj [(''account_id'', JStr ''a1''), (''subject'', JStr ''Hi''),
                                     (''body'', JStr ''Test''), (''to'', JArr [JStr ''x@y.com''])])\<rparr>])"
proof -
  let ?kvs = "[(''account_id'', JStr ''a1''), (''subject'', JStr ''Hi''),
               (''body'', JStr ''Test''), (''to'', JArr [JStr ''x@y.com''])]"
  let ?r = "example_reply 200 ''OK'' sent_text"
  have h: "example_loads scenario_body = Inr (JObj ?kvs)"
    by code_simp
  have j: "example_loads (reply_text ?r) = Inr (JObj [(''id'', JStr ''m1'')])"
    by code_simp
  have s: "200 \<le> status_code ?r \<and> status_code ?r < 300"
    by (simp add: example_reply_def)
  have u: "emails_url example_cfg = ''https://api1.unipile.com:13111/api/v1/emails''"
    by (simp add: emails_url_def example_cfg_def)
  have k: "UNIPILE_API_KEY example_cfg = Some ''secret''"
    by (simp add: example_cfg_def)
  show ?thesis
    using C5_send_forwards_verbatim [where loads = example_loads and cfg = example_cfg
        and post = "\<lambda>rq. Inr ?r", OF h] j s u k
    by (simp add: prod_eq_iff)
qed

subsection \<open>C6: the form that \<^verbatim>\<open>reply_email\<close> posts\<close>

text \<open>
  Claim C6. For every reply request \<^verbatim>\<open>reply_email\<close> makes one call, a POST to the
  emails path with form data and files. The form data holds exactly the account
  reference, the subject, the body, the recipients list encoded by \<^verbatim>\<open>json.dumps\<close> as one
  string, and the reply-target id. With an attachment, the files hold it under the name
  \<^verbatim>\<open>attachments\<close>; without one there are no files. Nothing stands for cc or bcc.
\<close>

theorem C6_reply_form_payload:
  "snd (reply_email cfg dumps post request reply_to attachment) =
     [\<lparr>url = emails_url cfg,
       headers = [(''X-API-KEY'', UNIPILE_API_KEY cfg), (''accept'', Some ''application/json'')],
       rq_payload =
         FormBody
           [(''account_id'', account_id request),
            (''subject'', subject request),
            (''body'', body_text request),
            (''to'', dumps (JArr (to request))),
            (''reply_to'', reply_to)]
           (case attachment of
              None \<Rightarrow> None
            | Some a \<Rightarrow> Some [(''attachments'', (filename a, file_content a))])\<rparr>]"
  by (simp add: snd_reply_email reply_request_def reply_form_def reply_files_def)

theorem C6_reply_form_payload_witness:
  "snd (reply_email example_cfg example_dumps (\<lambda>rq. Inr (example_reply 200 ''OK'' sent_text))
          example_request ''m0'' (Some \<lparr>filename = Some ''notes.txt'', file_content = ''see you''\<rparr>)) =
     [\<lparr>url = ''https://api1.unipile.com:13111/api/v1/emails'',
       headers = [(''X-API-KEY'', Some ''secret''), (''accept'', Some ''application/json'')],
       rq_payload =
         FormBody
           [(''account_id'', ''a1''), (''subject'', ''Hi''), (''body'', ''Test''),
            (''to'', example_dumps (JArr [JStr ''x@y.com''])), (''reply_to'', ''m0'')]
           (Some [(''attachments'', (Some ''notes.txt'', ''see you''))])\<rparr>] \<and>
   snd (reply_email example_cfg example_dumps (\<lambda>rq. Inr (example_reply 200 ''OK'' sent_text))
          example_request ''m0'' None) =
     [\<lparr>url = ''https://api1.unipile.com:13111/api/v1/emails'',
       headers = [(''X-API-KEY'', Some ''secret''), (''accept'', Some ''application/json'')],
       rq_payload =
         FormBody
           [(''account_id'', ''a1''), (''subject'', ''Hi''), (''body'', ''Test''),
            (''to'', example_dumps (JArr [JStr ''x@y.com''])), (''reply_to'', ''m0'')]
           None\<rparr>]"
  using
    C6_reply_form_payload [of example_cfg example_dumps "\<lambda>rq. Inr (example_reply 200 ''OK'' sent_text)"
      example_request "''m0''" "Some \<lparr>filename = Some ''notes.txt'', file_content = ''see you''\<rparr>"]
    C6_reply_form_payload [of example_cfg example_dumps "\<lambda>rq. Inr (example_reply 200 ''OK'' sent_text)"
      example_request "''m0''" None]
  by (simp add: example_cfg_def example_request_def emails_url_def)

subsection \<open>C7: requests that lack a required parameter\<close>




subsection \<open>C8: startup\<close>

text \<open>
  Claim C8. When \<^verbatim>\<open>UNIPILE_DSN\<close> or \<^verbatim>\<open>UNIPILE_API_KEY\<close> is missing or empty in the
  environment, the lifespan raises a \<^verbatim>\<open>RuntimeError\<close>, startup fails and no request is
  served. When both are present and not empty, startup succeeds having constructed the
  upstream client once, from those two values.
\<close>

theorem C8_startup_needs_both_values:
  "(os_getenv ''UNIPILE_DSN'' = None \<or> os_getenv ''UNIPILE_DSN'' = Some [] \<or>
    os_getenv ''UNIPILE_API_KEY'' = None \<or> os_getenv ''UNIPILE_API_KEY'' = Some [] \<longrightarrow>
      startup UnipileWrapper os_getenv =
        StartupFailed (PyException ''RuntimeError''
          ''Missing UNIPILE_DSN or UNIPILE_API_KEY environment variables'') \<and>
      serve (startup UnipileWrapper os_getenv) handler = None) \<and>
   (\<forall>dsn api_key.
      os_getenv ''UNIPILE_DSN'' = Some dsn \<and> dsn \<noteq> [] \<and>
      os_getenv ''UNIPILE_API_KEY'' = Some api_key \<and> api_key \<noteq> [] \<longrightarrow>
      startup UnipileWrapper os_getenv =
        Running \<lparr>unipile = Some (UnipileWrapper dsn api_key), constructed = [(dsn, api_key)]\<rparr> \<and>
      serve (startup UnipileWrapper os_getenv) handler =
        Some (handler \<lparr>unipile = Some (UnipileWrapper dsn api_key), constructed = [(dsn, api_key)]\<rparr>))"
  by (auto simp: startup_def lifespan_def truthy_def Let_def)

theorem C8_startup_needs_both_values_witness:
  "startup (\<lambda>dsn api_key. example_wrapper three_emails)
      (\<lambda>k. if k = ''UNIPILE_DSN'' then Some ''api1.unipile.com:13111'' else None) =
     StartupFailed (PyException ''RuntimeError''
       ''Missing UNIPILE_DSN or UNIPILE_API_KEY environment variables'') \<and>
   serve (startup (\<lambda>dsn api_key. example_wrapper three_emails)
      (\<lambda>k. if k = ''UNIPILE_DSN'' then Some ''api1.unipile.com:13111'' else None))
      (\<lambda>g. get_accounts (unipile g) example_loads) = None \<and>
   startup (\<lambda>dsn api_key. example_wrapper three_emails)
      (\<lambda>k. if k = ''UNIPILE_DSN'' then Some ''api1.unipile.com:13111''
           else if k = ''UNIPILE_API_KEY'' then Some ''secret'' else None) =
     Running \<lparr>unipile = Some (example_wrapper three_emails),
              constructed = [(''api1.unipile.com:13111'', ''secret'')]\<rparr>"
  using
    C8_startup_needs_both_values [of
      "\<lambda>k. if k = ''UNIPILE_DSN'' then Some ''api1.unipile.com:13111'' else None"
      "\<lambda>dsn api_key. example_wrapper three_emails"
      "\<lambda>g. get_accounts (unipile g) example_loads"]
    C8_startup_needs_both_values [of
      "\<lambda>k. if k = ''UNIPILE_DSN'' then Some ''api1.unipile.com:13111''
           else if k = ''UNIPILE_API_KEY'' then Some ''secret'' else None"
      "\<lambda>dsn api_key. example_wrapper three_emails"
      "\<lambda>g. get_accounts (unipile g) example_loads"]
  by simp

subsection \<open>C9: cc and bcc are not forwarded\<close>

text \<open>
  Claim C9. Whatever the request carries as cc and bcc, \<^verbatim>\<open>reply_email\<close> answers the same
  and posts the same: the form data of its one call has exactly the keys account_id,
  subject, body, to, reply_to, in that order.
\<close>

theorem C9_cc_bcc_never_forwarded:
  "reply_email cfg dumps post (request\<lparr>cc := c, bcc := b\<rparr>) reply_to attachment =
     reply_email cfg dumps post request reply_to attachment \<and>
   (\<exists>form files.
      map rq_payload (snd (reply_email cfg dumps post request reply_to attachment)) =
        [FormBody form files] \<and>
      map fst form = [''account_id'', ''subject'', ''body'', ''to'', ''reply_to''])"
  by (simp add: reply_email_def Let_def reply_request_def reply_form_def)

theorem C9_cc_bcc_never_forwarded_witness:
  "reply_email example_cfg example_dumps (\<lambda>rq. Inr (example_reply 200 ''OK'' sent_text))
     (example_request\<lparr>cc := Some [JStr ''c@y.com''], bcc := Some [JStr ''b@y.com'']\<rparr>) ''m0'' None =
   reply_email example_cfg example_dumps (\<lambda>rq. Inr (example_reply 200 ''OK'' sent_text))
     example_request ''m0'' None \<and>
   (\<exists>form files.
      map rq_payload
        (snd (reply_email example_cfg example_dumps (\<lambda>rq. Inr (example_reply 200 ''OK'' sent_text))
                example_request ''m0'' None)) = [FormBody form files] \<and>
      map fst form = [''account_id'', ''subject'', ''body'', ''to'', ''reply_to''])"
  by (rule C9_cc_bcc_never_forwarded)

subsection \<open>C10: a success that is reported as a failure\<close>

text \<open>
  Claim C10. When \<^verbatim>\<open>send_email\<close> has posted the payload and the provider has answered
  with a status from 200 to 299, but the body of that answer is not JSON, decoding it
  raises, and the endpoint answers with status 500 and the body \<^verbatim>\<open>{"detail": str(e)}\<close>
  for that exception, after the one upstream call, the POST of the payload, has been made.
\<close>

theorem C10_send_fails_after_upstream_success:
  assumes "loads raw = Inr payload"
      and "post (send_request cfg payload) = Inr r"
      and "200 \<le> status_code r" and "status_code r < 300"
      and "loads (reply_text r) = Inl e"
  shows "send_email cfg loads post raw =
           (\<lparr>status = 500, body = JObj [(''detail'', JStr (exc_str e))]\<rparr>,
            [\<lparr>url = emails_url cfg,
              headers = [(''X-API-KEY'', UNIPILE_API_KEY cfg), (''accept'', Some ''application/json''),
                         (''Content-Type'', Some ''application/json'')],
              rq_payload = JsonBody payload\<rparr>])"
  using assms(2-5)
  by (simp add: send_email_decoded [where loads = loads, OF assms(1)] raise_for_status_2xx
      catch_all_def HTTPException_def send_request_def)

theorem C10_send_fails_after_upstream_success_witness:
  "send_email example_cfg example_loads (\<lambda>rq. Inr (example_reply 200 ''OK'' ''<html>sent</html>''))
     scenario_body =
     (\<lparr>status = 500,
       body = JObj [(''detail'', JStr ''Expecting value: line 1 column 1 (char 0)'')]\<rparr>,
      [\<lparr>url = ''https://api1.unipile.com:13111/api/v1/emails'',
        headers = [(''X-API-KEY'', Some ''secret''), (''accept'', Some ''application/json''),
                   (''Content-Type'', Some ''application/json'')],
        rq_payload = JsonBody (JObj [(''account_id'', JStr ''a1''), (''subject'', JStr ''Hi''),
                                     (''body'', JStr ''Test''), (''to'', JArr [JStr ''x@y.com''])])\<rparr>])"
proof -
  let ?r = "example_reply 200 ''OK'' ''<html>sent</html>''"
  have h1: "example_loads scenario_body =
      Inr (JObj [(''account_id'', JStr ''a1''), (''subject'', JStr ''Hi''),
                 (''body'', JStr ''Test''), (''to'', JArr [JStr ''x@y.com''])])"
    by code_simp
  have h2: "(\<lambda>rq. Inr ?r) (send_request example_cfg
      (JObj [(''account_id'', JStr ''a1''), (''subject'', JStr ''Hi''),
             (''body'', JStr ''Test''), (''to'', JArr [JStr ''x@y.com''])])) = (Inr ?r :: py_exception + http_reply)"
    by simp
  have h3: "200 \<le> status_code ?r" and h4: "status_code ?r < 300"
    by (simp_all add: example_reply_def)
  have h5: "example_loads (reply_text ?r) =
      Inl (PyException ''JSONDecodeError'' ''Expecting value: line 1 column 1 (char 0)'')"
    by code_simp
  have u: "emails_url example_cfg = ''https://api1.unipile.com:13111/api/v1/emails''"
    by (simp add: emails_url_def example_cfg_def)
  have k: "UNIPILE_API_KEY example_cfg = Some ''secret''"
    by (simp add: example_cfg_def)
  show ?thesis
    using C10_send_fails_after_upstream_success [where loads = example_loads
        and post = "\<lambda>rq. Inr ?r", OF h1 h2 h3 h4 h5] u k
    by simp
qed

end
